theory Spec2Isabelle
  imports Complex_Main
begin

section \<open>Time values of the Go runtime\<close>

text \<open>
  The rate limiter of \<^verbatim>\<open>internal/stealth/rate_limit.go\<close> and the activity scheduler of
  \<^verbatim>\<open>internal/stealth/schedule.go\<close> are embedded as functions on explicit states.

  A \<^verbatim>\<open>time.Time\<close> is the number of nanoseconds since Go's zero \<^verbatim>\<open>Time\<close>
  (\<^verbatim>\<open>time.Time{}\<close>, January 1 of year 1), an unbounded integer; \<^verbatim>\<open>t.Before(u)\<close> is
  \<open>t < u\<close>, \<^verbatim>\<open>t.After(u)\<close> is \<open>u < t\<close> and \<^verbatim>\<open>t.Add(d)\<close> is \<open>t + d\<close>. A
  \<^verbatim>\<open>time.Duration\<close> is a number of nanoseconds and an \<^verbatim>\<open>int64\<close> in Go.

  The clock is an argument of every method. \<^verbatim>\<open>GetWaitTime\<close> takes the two readings its
  call makes, in their order, and computes its durations as Go does: \<open>Sub\<close> saturates
  and the subtraction of durations wraps around. \<^verbatim>\<open>CanPerformAction\<close>, \<^verbatim>\<open>RecordAction\<close>,
  \<^verbatim>\<open>GetActionStats\<close>, \<^verbatim>\<open>ResetDaily\<close> and the scheduler are taken at one instant
  \<open>now\<close>, which all the clock readings of the call see, and their differences of
  instants are plain differences. The mutex is not modelled: calls are sequential.
\<close>

type_synonym Time = int
type_synonym Duration = int

definition zeroTime :: Time where
  "zeroTime = 0"

definition Microsecond :: Duration where
  "Microsecond = 1000"

definition Millisecond :: Duration where
  "Millisecond = 1000000"

definition Second :: Duration where
  "Second = 1000000000"

definition Minute :: Duration where
  "Minute = 60000000000"

definition Hour :: Duration where
  "Hour = 3600000000000"

definition maxDuration :: Duration where
  "maxDuration = 2 ^ 63 - 1"

definition minDuration :: Duration where
  "minDuration = - (2 ^ 63)"

text \<open>Go's \<^verbatim>\<open>int\<close> on a 64-bit platform: arithmetic wraps around modulo \<open>2 ^ 64\<close>.\<close>

definition wrap_int64 :: "int \<Rightarrow> int" where
  "wrap_int64 x = (x + 2 ^ 63) mod 2 ^ 64 - 2 ^ 63"

subsection \<open>Rendering of durations and integers by the fmt verbs\<close>

text \<open>
  \<^verbatim>\<open>fmt.Sprintf\<close> renders a \<^verbatim>\<open>time.Duration\<close> under \<^verbatim>\<open>%v\<close> with
  \<^verbatim>\<open>Duration.String\<close> and an \<^verbatim>\<open>int\<close> under \<^verbatim>\<open>%d\<close> in decimal. The functions
  below follow the standard library (\<^verbatim>\<open>time.Duration.Round\<close>, \<^verbatim>\<open>time.fmtInt\<close>,
  \<^verbatim>\<open>time.fmtFrac\<close>, \<^verbatim>\<open>time.Duration.String\<close>); they write into a buffer from the right,
  the model conses onto the front of a string.
\<close>

definition digit :: "nat \<Rightarrow> char" where
  "digit n = ''0123456789'' ! (n mod 10)"

function fmtDigits :: "nat \<Rightarrow> string \<Rightarrow> string" where
  "fmtDigits v acc = (if 0 < v then fmtDigits (v div 10) (digit (v mod 10) # acc) else acc)"
  by pat_completeness auto
termination
  by (relation "measure (\<lambda>(v, acc). v)") auto

declare fmtDigits.simps [simp del]

definition fmtInt :: "nat \<Rightarrow> string" where
  "fmtInt v = (if v = 0 then ''0'' else fmtDigits v [])"

text \<open>The verb \<^verbatim>\<open>%d\<close> on a signed integer.\<close>

definition fmt_d :: "int \<Rightarrow> string" where
  "fmt_d i = (if i < 0 then CHR ''-'' # fmtInt (nat (- i)) else fmtInt (nat i))"

text \<open>
  \<^verbatim>\<open>fmtFrac\<close> drops the last \<open>prec\<close> digits of \<open>v\<close> and renders them as a fraction
  without trailing zeros; the arguments \<open>print\<close> and \<open>acc\<close> are the loop's variables.
\<close>

fun fmtFracLoop :: "nat \<Rightarrow> nat \<Rightarrow> bool \<Rightarrow> string \<Rightarrow> string \<times> nat" where
  "fmtFracLoop 0 v print acc = ((if print then CHR ''.'' # acc else acc), v)"
| "fmtFracLoop (Suc i) v print acc =
     (let d = v mod 10;
          print' = (print \<or> d \<noteq> 0)
      in fmtFracLoop i (v div 10) print' (if print' then digit d # acc else acc))"

definition fmtFrac :: "nat \<Rightarrow> nat \<Rightarrow> string \<times> nat" where
  "fmtFrac v prec = fmtFracLoop prec v False []"

definition Duration_String :: "Duration \<Rightarrow> string" where
  "Duration_String d =
     (let u = nat \<bar>d\<bar>;
          body =
            (if u < nat Second then
               (if u = 0 then ''0s''
                else if u < nat Microsecond then
                  (case fmtFrac u 0 of (fr, w) \<Rightarrow> fmtInt w @ fr @ ''ns'')
                else if u < nat Millisecond then
                  (case fmtFrac u 3 of (fr, w) \<Rightarrow> fmtInt w @ fr @ [CHR 0xC2, CHR 0xB5] @ ''s'')
                else
                  (case fmtFrac u 6 of (fr, w) \<Rightarrow> fmtInt w @ fr @ ''ms''))
             else
               (case fmtFrac u 9 of (fr, secs) \<Rightarrow>
                  (let s = fmtInt (secs mod 60) @ fr @ ''s'';
                       mins = secs div 60
                   in if 0 < mins then
                        (let m = fmtInt (mins mod 60) @ ''m'';
                             hrs = mins div 60
                         in if 0 < hrs then fmtInt hrs @ ''h'' @ m @ s else m @ s)
                      else s)))
      in if d < 0 then CHR ''-'' # body else body)"

text \<open>
  \<^verbatim>\<open>Duration.Round\<close>: to the nearest multiple of \<open>m\<close>, halfway values away from zero,
  saturating at the largest and smallest duration. Go's \<^verbatim>\<open>%\<close> truncates towards zero.
\<close>

definition lessThanHalf :: "int \<Rightarrow> int \<Rightarrow> bool" where
  "lessThanHalf x y = (x + x < y)"

definition Round :: "Duration \<Rightarrow> Duration \<Rightarrow> Duration" where
  "Round d m =
     (if m \<le> 0 then d
      else if d < 0 then
        (let r = (- d) mod m
         in if lessThanHalf r m then d + r
            else if minDuration \<le> d - m + r then d - m + r
            else minDuration)
      else
        (let r = d mod m
         in if lessThanHalf r m then d - r
            else if d + m - r \<le> maxDuration then d + m - r
            else maxDuration))"

section \<open>The rate limiter\<close>

type_synonym ActionType = string

definition ActionProfileView :: ActionType where
  "ActionProfileView = ''profile_view''"

definition ActionConnectionReq :: ActionType where
  "ActionConnectionReq = ''connection_request''"

definition ActionMessage :: ActionType where
  "ActionMessage = ''message''"

definition ActionSearch :: ActionType where
  "ActionSearch = ''search''"

definition ActionScroll :: ActionType where
  "ActionScroll = ''scroll''"

definition ActionLike :: ActionType where
  "ActionLike = ''like''"

definition ActionComment :: ActionType where
  "ActionComment = ''comment''"

definition ActionPageView :: ActionType where
  "ActionPageView = ''page_view''"

record ActionLimit =
  HourlyMax :: int
  DailyMax :: int
  MinInterval :: Duration
  CooldownAfter :: int
  CooldownDuration :: Duration

text \<open>
  The two Go maps are partial functions. \<^verbatim>\<open>NewRateLimiter\<close> is the only place that
  writes \<^verbatim>\<open>limits\<close> and it stores no nil pointer, so a key of \<^verbatim>\<open>limits\<close> has a limit,
  and reading a missing key gives the nil pointer. Reading a missing key of
  \<^verbatim>\<open>actionHistory\<close> gives the nil slice, which has length 0: \<open>historyOf\<close> is that
  read.
\<close>

record RateLimiter =
  limits :: "ActionType \<rightharpoonup> ActionLimit"
  actionHistory :: "ActionType \<rightharpoonup> Time list"
  dailyResetTime :: Time
  hourlyResetTime :: Time
  cooldownUntil :: Time
  consecutiveActions :: int

definition historyOf :: "RateLimiter \<Rightarrow> ActionType \<Rightarrow> Time list" where
  "historyOf rl actionType = (case actionHistory rl actionType of None \<Rightarrow> [] | Some h \<Rightarrow> h)"

definition resetTimers :: "Time \<Rightarrow> RateLimiter \<Rightarrow> RateLimiter" where
  "resetTimers now rl = rl\<lparr>hourlyResetTime := now + Hour, dailyResetTime := now + 24 * Hour\<rparr>"

definition NewRateLimiter :: "Time \<Rightarrow> RateLimiter" where
  "NewRateLimiter now =
     resetTimers now
       \<lparr>limits = Map.empty
          (ActionProfileView \<mapsto>
             \<lparr>HourlyMax = 40, DailyMax = 200, MinInterval = 15 * Second,
              CooldownAfter = 10, CooldownDuration = 5 * Minute\<rparr>,
           ActionConnectionReq \<mapsto>
             \<lparr>HourlyMax = 10, DailyMax = 50, MinInterval = 90 * Second,
              CooldownAfter = 5, CooldownDuration = 10 * Minute\<rparr>,
           ActionMessage \<mapsto>
             \<lparr>HourlyMax = 15, DailyMax = 80, MinInterval = 60 * Second,
              CooldownAfter = 7, CooldownDuration = 8 * Minute\<rparr>,
           ActionSearch \<mapsto>
             \<lparr>HourlyMax = 30, DailyMax = 150, MinInterval = 20 * Second,
              CooldownAfter = 8, CooldownDuration = 3 * Minute\<rparr>,
           ActionScroll \<mapsto>
             \<lparr>HourlyMax = 200, DailyMax = 1000, MinInterval = 2 * Second,
              CooldownAfter = 20, CooldownDuration = 2 * Minute\<rparr>,
           ActionLike \<mapsto>
             \<lparr>HourlyMax = 25, DailyMax = 120, MinInterval = 30 * Second,
              CooldownAfter = 8, CooldownDuration = 5 * Minute\<rparr>,
           ActionComment \<mapsto>
             \<lparr>HourlyMax = 8, DailyMax = 30, MinInterval = 120 * Second,
              CooldownAfter = 3, CooldownDuration = 15 * Minute\<rparr>,
           ActionPageView \<mapsto>
             \<lparr>HourlyMax = 100, DailyMax = 500, MinInterval = 5 * Second,
              CooldownAfter = 15, CooldownDuration = 3 * Minute\<rparr>),
        actionHistory = Map.empty,
        dailyResetTime = zeroTime,
        hourlyResetTime = zeroTime,
        cooldownUntil = zeroTime,
        consecutiveActions = 0\<rparr>"

text \<open>
  \<^verbatim>\<open>countActionsInWindow\<close> scans the history from its last entry backwards and stops at
  the first entry that is not after the cutoff; \<open>countLoop\<close> is that loop on the
  reversed history.
\<close>

fun countLoop :: "Time \<Rightarrow> Time list \<Rightarrow> int \<Rightarrow> int" where
  "countLoop cutoff [] count = count"
| "countLoop cutoff (t # older) count =
     (if cutoff < t then countLoop cutoff older (count + 1) else count)"

definition countActionsInWindow :: "Time \<Rightarrow> Time list \<Rightarrow> Duration \<Rightarrow> int" where
  "countActionsInWindow now history window =
     (if length history = 0 then 0
      else countLoop (now + (- window)) (rev history) 0)"

definition cleanHistory :: "Time \<Rightarrow> ActionType \<Rightarrow> RateLimiter \<Rightarrow> RateLimiter" where
  "cleanHistory now actionType rl =
     (let history = historyOf rl actionType
      in if length history = 0 then rl
         else
           (let cutoff = now + (- 24 * Hour);
                newHistory = filter (\<lambda>t. cutoff < t) history
            in rl\<lparr>actionHistory := (actionHistory rl)(actionType \<mapsto> newHistory)\<rparr>))"

text \<open>
  \<^verbatim>\<open>CanPerformAction\<close> returns its two results and the limiter after the call.
\<close>

definition CanPerformAction ::
  "Time \<Rightarrow> ActionType \<Rightarrow> RateLimiter \<Rightarrow> (bool \<times> string) \<times> RateLimiter" where
  "CanPerformAction now actionType rl =
     (if now < cooldownUntil rl then
        (let remaining = cooldownUntil rl - now
         in ((False, ''In cooldown period. Wait '' @ Duration_String (Round remaining Second)), rl))
      else
        (case limits rl actionType of
           None \<Rightarrow> ((True, ''''), rl)
         | Some limit \<Rightarrow>
             (let rl' = cleanHistory now actionType rl;
                  history = historyOf rl' actionType;
                  hourlyCount = countActionsInWindow now history Hour;
                  dailyCount = countActionsInWindow now history (24 * Hour)
              in if HourlyMax limit \<le> hourlyCount then
                   ((False, ''Hourly limit reached ('' @ fmt_d hourlyCount @ ''/''
                       @ fmt_d (HourlyMax limit) @ '')''), rl')
                 else if DailyMax limit \<le> dailyCount then
                   ((False, ''Daily limit reached ('' @ fmt_d dailyCount @ ''/''
                       @ fmt_d (DailyMax limit) @ '')''), rl')
                 else if 0 < length history \<and> now - last history < MinInterval limit then
                   (let remaining = MinInterval limit - (now - last history)
                    in ((False, ''Too soon. Wait '' @ Duration_String (Round remaining Second)), rl'))
                 else ((True, ''''), rl'))))"

text \<open>
  \<^verbatim>\<open>RecordAction\<close> returns its error (\<open>None\<close> for \<^verbatim>\<open>nil\<close>, otherwise the message of
  \<^verbatim>\<open>fmt.Errorf\<close>) and the limiter after the call.
\<close>

definition RecordAction ::
  "Time \<Rightarrow> ActionType \<Rightarrow> RateLimiter \<Rightarrow> string option \<times> RateLimiter" where
  "RecordAction now actionType rl =
     (case limits rl actionType of
        None \<Rightarrow> (Some (''no limit defined for action type: '' @ actionType), rl)
      | Some limit \<Rightarrow>
          (let rl1 = rl\<lparr>actionHistory :=
                        (actionHistory rl)(actionType \<mapsto> historyOf rl actionType @ [now])\<rparr>;
               rl2 = rl1\<lparr>consecutiveActions := wrap_int64 (consecutiveActions rl1 + 1)\<rparr>;
               rl3 = (if CooldownAfter limit \<le> consecutiveActions rl2
                      then rl2\<lparr>cooldownUntil := now + CooldownDuration limit,
                               consecutiveActions := 0\<rparr>
                      else rl2);
               rl4 = (if hourlyResetTime rl3 < now
                      then rl3\<lparr>hourlyResetTime := now + Hour\<rparr> else rl3);
               rl5 = (if dailyResetTime rl4 < now
                      then rl4\<lparr>dailyResetTime := now + 24 * Hour\<rparr> else rl4)
           in (None, rl5)))"

text \<open>
  \<^verbatim>\<open>t.Sub(u)\<close> is the difference \<open>t - u\<close>, replaced by the largest or the smallest
  duration when it does not fit an \<^verbatim>\<open>int64\<close>. \<^verbatim>\<open>time.Until(t)\<close> is \<open>Sub t now\<close> and
  \<^verbatim>\<open>time.Since(t)\<close> is \<open>Sub now t\<close> for the clock reading \<open>now\<close> they make.
\<close>

definition Sub :: "Time \<Rightarrow> Time \<Rightarrow> Duration" where
  "Sub t u =
     (if t - u < minDuration then minDuration
      else if maxDuration < t - u then maxDuration
      else t - u)"

text \<open>
  \<^verbatim>\<open>GetWaitTime\<close> reads the clock at most twice: \<open>now1\<close> is
  the reading of \<^verbatim>\<open>time.Now().Before(rl.cooldownUntil)\<close>, and \<open>now2\<close> the later reading
  of \<^verbatim>\<open>time.Until(rl.cooldownUntil)\<close> inside a cooldown and of
  \<^verbatim>\<open>time.Since(lastAction)\<close> outside.
\<close>

definition GetWaitTime :: "Time \<Rightarrow> Time \<Rightarrow> ActionType \<Rightarrow> RateLimiter \<Rightarrow> Duration" where
  "GetWaitTime now1 now2 actionType rl =
     (if now1 < cooldownUntil rl then Sub (cooldownUntil rl) now2
      else
        (case limits rl actionType of
           None \<Rightarrow> 0
         | Some limit \<Rightarrow>
             (let history = historyOf rl actionType
              in if length history = 0 then 0
                 else
                   (let lastAction = last history;
                        elapsed = Sub now2 lastAction
                    in if elapsed < MinInterval limit
                       then wrap_int64 (MinInterval limit - elapsed)
                       else 0))))"

text \<open>
  \<^verbatim>\<open>ResetDaily\<close> ranges over the keys of \<^verbatim>\<open>actionHistory\<close> and cleans each; a key's
  cleaning touches that key's entry only, so the order of the iteration is immaterial.
\<close>

definition ResetDaily :: "Time \<Rightarrow> RateLimiter \<Rightarrow> RateLimiter" where
  "ResetDaily now rl =
     rl\<lparr>actionHistory :=
          (\<lambda>actionType. actionHistory (cleanHistory now actionType rl) actionType),
        dailyResetTime := now + 24 * Hour\<rparr>"

text \<open>
  A caller's run of calls: \<open>records\<close> is \<^verbatim>\<open>RecordAction\<close> for one kind at each instant of
  a list in turn, with the errors returned; \<open>checks\<close> is \<^verbatim>\<open>CanPerformAction\<close> at each
  instant and kind of a list in turn, the answers dropped.
\<close>

fun records :: "ActionType \<Rightarrow> Time list \<Rightarrow> RateLimiter \<Rightarrow> string option list \<times> RateLimiter" where
  "records actionType [] rl = ([], rl)"
| "records actionType (now # later) rl =
     (case RecordAction now actionType rl of (err, rl') \<Rightarrow>
        (case records actionType later rl' of (errs, rl'') \<Rightarrow> (err # errs, rl'')))"

fun checks :: "(Time \<times> ActionType) list \<Rightarrow> RateLimiter \<Rightarrow> RateLimiter" where
  "checks [] rl = rl"
| "checks ((now, actionType) # later) rl = checks later (snd (CanPerformAction now actionType rl))"

text \<open>
  The cooldown scenario: a limiter created at the instant \<open>created\<close>, then five connection
  requests recorded 90 seconds apart from the instant \<open>T0\<close> on.
\<close>

definition five_requests :: "Time \<Rightarrow> Time \<Rightarrow> string option list \<times> RateLimiter" where
  "five_requests created T0 =
     records ActionConnectionReq
       [T0, T0 + 90 * Second, T0 + 180 * Second, T0 + 270 * Second, T0 + 360 * Second]
       (NewRateLimiter created)"

text \<open>
  \<^verbatim>\<open>GetActionStats\<close> builds a map with nine fixed keys, here a record. Reading
  \<^verbatim>\<open>limit.HourlyMax\<close> through the nil pointer that a missing key of \<^verbatim>\<open>limits\<close>
  yields is a run-time panic.
\<close>

record ActionStats =
  action_type :: ActionType
  hourly_count :: int
  hourly_limit :: int
  hourly_remaining :: int
  daily_count :: int
  daily_limit :: int
  daily_remaining :: int
  in_cooldown :: bool
  cooldown_remaining :: Duration

datatype panic = NilPointerDereference

definition GetActionStats :: "Time \<Rightarrow> ActionType \<Rightarrow> RateLimiter \<Rightarrow> panic + ActionStats" where
  "GetActionStats now actionType rl =
     (let limit = limits rl actionType;
          history = historyOf rl actionType;
          hourlyCount = countActionsInWindow now history Hour;
          dailyCount = countActionsInWindow now history (24 * Hour)
      in case limit of
           None \<Rightarrow> Inl NilPointerDereference
         | Some l \<Rightarrow>
             Inr \<lparr>action_type = actionType,
                  hourly_count = hourlyCount,
                  hourly_limit = HourlyMax l,
                  hourly_remaining = wrap_int64 (HourlyMax l - hourlyCount),
                  daily_count = dailyCount,
                  daily_limit = DailyMax l,
                  daily_remaining = wrap_int64 (DailyMax l - dailyCount),
                  in_cooldown = (now < cooldownUntil rl),
                  cooldown_remaining =
                    (if now < cooldownUntil rl then cooldownUntil rl - now else 0)\<rparr>)"

section \<open>The activity scheduler\<close>

text \<open>
  What the scheduler takes from the standard library is a parameter of the model:
  \<^item> \<open>LoadLocation\<close>, for \<^verbatim>\<open>time.LoadLocation\<close>: the location of a name, or \<open>Inl\<close> the
    error;
  \<^item> \<open>NewRand\<close>, for \<^verbatim>\<open>rand.New(rand.NewSource(seed))\<close>: the generator of a seed;
  \<^item> \<open>Float64\<close>, for \<^verbatim>\<open>(*rand.Rand).Float64\<close>: the number drawn and the generator
    after the draw;
  \<^item> \<open>hourMinuteIn\<close>, for \<^verbatim>\<open>t.In(loc).Hour()\<close> and \<^verbatim>\<open>t.In(loc).Minute()\<close>: the hour
    and the minute of an instant on the wall clock of a location.

  A \<^verbatim>\<open>float64\<close> is the real number it denotes, and comparing two of them compares
  these numbers. The literals \<^verbatim>\<open>0.70\<close> and \<^verbatim>\<open>0.40\<close> of \<^verbatim>\<open>IsBreakTime\<close> are compared
  with a \<^verbatim>\<open>float64\<close>, so they stand for the nearest \<^verbatim>\<open>float64\<close> values, which
  are \<open>float64_0_70\<close> and \<open>float64_0_40\<close>.
\<close>

definition float64_0_70 :: real where
  "float64_0_70 = 6305039478318694 / 2 ^ 53"

definition float64_0_40 :: real where
  "float64_0_40 = 7205759403792794 / 2 ^ 54"

datatype Location = UTC | Local | Zone string

record TimeWindow =
  Start :: Time
  End :: Time

record 'r ActivityScheduler =
  timezone :: Location
  workHoursStart :: int
  workHoursEnd :: int
  breakTimes :: "TimeWindow list"
  lastActivityTime :: Time
  dailyActionCount :: int
  rand :: 'r

text \<open>\<^verbatim>\<open>Time.UnixNano\<close>: nanoseconds since January 1, 1970 UTC, as an \<^verbatim>\<open>int64\<close>.\<close>

definition UnixNano :: "Time \<Rightarrow> int" where
  "UnixNano t = wrap_int64 (t - 62135596800 * Second)"

text \<open>
  \<^verbatim>\<open>NewActivityScheduler\<close> returns the scheduler and the error, \<open>None\<close> for \<^verbatim>\<open>nil\<close>.
\<close>

definition NewActivityScheduler ::
  "(string \<Rightarrow> string + Location) \<Rightarrow> (int \<Rightarrow> 'r) \<Rightarrow> Time \<Rightarrow> string
     \<Rightarrow> 'r ActivityScheduler \<times> string option" where
  "NewActivityScheduler LoadLocation NewRand now timezoneName =
     (let loc = (case LoadLocation timezoneName of Inl err \<Rightarrow> UTC | Inr l \<Rightarrow> l)
      in (\<lparr>timezone = loc,
           workHoursStart = 9,
           workHoursEnd = 18,
           breakTimes = [\<lparr>Start = zeroTime, End = zeroTime\<rparr>],
           lastActivityTime = zeroTime,
           dailyActionCount = 0,
           rand = NewRand (UnixNano now)\<rparr>,
          None))"

text \<open>
  \<^verbatim>\<open>IsBreakTime\<close> returns its result and the scheduler after the call: a draw advances
  the generator.
\<close>

definition IsBreakTime ::
  "(Location \<Rightarrow> Time \<Rightarrow> int \<times> int) \<Rightarrow> ('r \<Rightarrow> real \<times> 'r) \<Rightarrow> Time
     \<Rightarrow> 'r ActivityScheduler \<Rightarrow> bool \<times> 'r ActivityScheduler" where
  "IsBreakTime hourMinuteIn Float64 now as =
     (case hourMinuteIn (timezone as) now of (hour, minute) \<Rightarrow>
        if hour = 12 \<or> (hour = 13 \<and> minute < 30) then
          (case Float64 (rand as) of (f, r) \<Rightarrow> (f < float64_0_70, as\<lparr>rand := r\<rparr>))
        else if hour = 10 \<and> minute < 15 then
          (case Float64 (rand as) of (f, r) \<Rightarrow> (f < float64_0_40, as\<lparr>rand := r\<rparr>))
        else if hour = 15 \<and> minute < 15 then
          (case Float64 (rand as) of (f, r) \<Rightarrow> (f < float64_0_40, as\<lparr>rand := r\<rparr>))
        else (False, as))"

section \<open>Evaluation lemmas\<close>

lemma fmtFracLoop_numeral:
  "fmtFracLoop (numeral k) v print acc =
     (let d = v mod 10;
          print' = (print \<or> d \<noteq> 0)
      in fmtFracLoop (pred_numeral k) (v div 10) print' (if print' then digit d # acc else acc))"
  using fmtFracLoop.simps(2) [of "pred_numeral k" v print acc]
  by (simp only: numeral_eq_Suc [of k, symmetric])

lemmas kinds_defs =
  ActionProfileView_def ActionConnectionReq_def ActionMessage_def ActionSearch_def
  ActionScroll_def ActionLike_def ActionComment_def ActionPageView_def

lemmas units_defs = Second_def Minute_def Hour_def Microsecond_def Millisecond_def

lemmas render_defs =
  Round_def Duration_String_def lessThanHalf_def Let_def fmtFrac_def maxDuration_def
  minDuration_def fmtFracLoop_numeral fmtInt_def fmtDigits.simps digit_def

lemmas range_defs = Sub_def wrap_int64_def minDuration_def maxDuration_def

lemmas limiter_defs =
  RecordAction_def CanPerformAction_def NewRateLimiter_def resetTimers_def cleanHistory_def
  countActionsInWindow_def GetWaitTime_def historyOf_def wrap_int64_def zeroTime_def Let_def

section \<open>Recording an action\<close>

text \<open>
  C7. \<^verbatim>\<open>RecordAction\<close> returns an error exactly when the kind has no configured limit.
  In that case nothing of the limiter changes: the call returns the message and the
  limiter it was given, so no history grows and the counter and the cooldown end keep
  their values. Otherwise the instant of the call, and nothing else, is appended to the
  history of that kind, and the histories of the other kinds stay as they were.
\<close>

theorem RecordAction_unknown_kind:
  "(fst (RecordAction now actionType rl) \<noteq> None) = (limits rl actionType = None) \<and>
   (limits rl actionType = None \<longrightarrow>
      RecordAction now actionType rl =
        (Some (''no limit defined for action type: '' @ actionType), rl)) \<and>
   (limits rl actionType \<noteq> None \<longrightarrow>
      historyOf (snd (RecordAction now actionType rl)) actionType
        = historyOf rl actionType @ [now] \<and>
      (\<forall>other. other \<noteq> actionType \<longrightarrow>
         actionHistory (snd (RecordAction now actionType rl)) other = actionHistory rl other))"
  by (auto simp: RecordAction_def Let_def historyOf_def split: option.splits)

theorem RecordAction_unknown_kind_witness:
  "limits (NewRateLimiter 0) ''endorse'' = None \<and>
   RecordAction (5 * Second) ''endorse'' (NewRateLimiter 0) =
     (Some ''no limit defined for action type: endorse'', NewRateLimiter 0) \<and>
   limits (NewRateLimiter 0) ActionLike \<noteq> None \<and>
   fst (RecordAction (5 * Second) ActionLike (NewRateLimiter 0)) = None \<and>
   historyOf (snd (RecordAction (5 * Second) ActionLike (NewRateLimiter 0))) ActionLike
     = [5 * Second]"
  using RecordAction_unknown_kind [of "5 * Second" "''endorse''" "NewRateLimiter 0"]
    RecordAction_unknown_kind [of "5 * Second" ActionLike "NewRateLimiter 0"]
  by (simp add: NewRateLimiter_def resetTimers_def historyOf_def kinds_defs)

section \<open>Kinds without a configured limit\<close>

text \<open>
  C10. \<^verbatim>\<open>GetActionStats\<close> has no guard for a kind without a limit: it panics on the nil
  \<^verbatim>\<open>*ActionLimit\<close> exactly when the kind has no entry in \<^verbatim>\<open>limits\<close>, and returns its
  statistics for every configured kind. \<^verbatim>\<open>CanPerformAction\<close> and \<^verbatim>\<open>GetWaitTime\<close> handle
  the missing entry: outside a cooldown they answer \<open>(true, "")\<close> and \<open>0\<close>.
\<close>

theorem GetActionStats_nil_limit:
  "(GetActionStats now actionType rl = Inl NilPointerDereference) = (limits rl actionType = None) \<and>
   (limits rl actionType \<noteq> None \<longrightarrow> (\<exists>stats. GetActionStats now actionType rl = Inr stats)) \<and>
   (limits rl actionType = None \<longrightarrow> \<not> now < cooldownUntil rl \<longrightarrow>
      CanPerformAction now actionType rl = ((True, ''''), rl) \<and>
      GetWaitTime now now2 actionType rl = 0)"
  by (auto simp: GetActionStats_def CanPerformAction_def GetWaitTime_def Let_def split: option.splits)

theorem GetActionStats_nil_limit_witness:
  "limits (NewRateLimiter 0) ''endorse'' = None \<and>
   \<not> 5 * Second < cooldownUntil (NewRateLimiter 0) \<and>
   GetActionStats (5 * Second) ''endorse'' (NewRateLimiter 0) = Inl NilPointerDereference \<and>
   CanPerformAction (5 * Second) ''endorse'' (NewRateLimiter 0) = ((True, ''''), NewRateLimiter 0) \<and>
   GetWaitTime (5 * Second) (5 * Second) ''endorse'' (NewRateLimiter 0) = 0 \<and>
   limits (NewRateLimiter 0) ActionLike \<noteq> None \<and>
   (\<exists>stats. GetActionStats (5 * Second) ActionLike (NewRateLimiter 0) = Inr stats)"
  using GetActionStats_nil_limit [of "5 * Second" "''endorse''" "NewRateLimiter 0" "5 * Second"]
    GetActionStats_nil_limit [of "5 * Second" ActionLike "NewRateLimiter 0" "5 * Second"]
  by (simp add: NewRateLimiter_def resetTimers_def zeroTime_def kinds_defs units_defs)

text \<open>
  C3, as stated, fails: the cooldown is checked before the limits are looked up. After
  three comments recorded at 0 s, 120 s and 240 s the cooldown runs until 1140 s, and at
  300 s a kind without a limit is refused with the cooldown reason.
\<close>

theorem unconfigured_kind_in_cooldown_counterexample:
  "limits (snd (RecordAction (240 * Second) ActionComment
     (snd (RecordAction (120 * Second) ActionComment
        (snd (RecordAction 0 ActionComment (NewRateLimiter 0))))))) ''endorse'' = None \<and>
   fst (CanPerformAction (300 * Second) ''endorse''
     (snd (RecordAction (240 * Second) ActionComment
       (snd (RecordAction (120 * Second) ActionComment
          (snd (RecordAction 0 ActionComment (NewRateLimiter 0))))))))
     = (False, ''In cooldown period. Wait 14m0s'')"
proof -
  have "Duration_String (Round (840 * Second) Second) = ''14m0s''"
    by (simp add: render_defs units_defs)
  then show ?thesis
    by (simp add: limiter_defs kinds_defs units_defs)
qed

text \<open>
  C3, amended. For a kind without a configured limit, \<^verbatim>\<open>CanPerformAction\<close> returns
  \<open>(true, "")\<close> whenever the instant of the call is not before the cooldown end; while
  it is before the cooldown end the call returns false with the cooldown reason. In both
  cases the limiter is unchanged.
\<close>

theorem unconfigured_kind_allowed:
  "limits rl actionType = None \<Longrightarrow>
     (\<not> now < cooldownUntil rl \<longrightarrow> CanPerformAction now actionType rl = ((True, ''''), rl)) \<and>
     (now < cooldownUntil rl \<longrightarrow>
        CanPerformAction now actionType rl =
          ((False, ''In cooldown period. Wait ''
              @ Duration_String (Round (cooldownUntil rl - now) Second)), rl))"
  by (simp add: CanPerformAction_def Let_def)

theorem unconfigured_kind_allowed_witness:
  "limits (NewRateLimiter 0) ''endorse'' = None \<and>
   \<not> 5 * Second < cooldownUntil (NewRateLimiter 0) \<and>
   CanPerformAction (5 * Second) ''endorse'' (NewRateLimiter 0) = ((True, ''''), NewRateLimiter 0)"
proof -
  have h: "limits (NewRateLimiter 0) ''endorse'' = None"
    by (simp add: NewRateLimiter_def resetTimers_def kinds_defs)
  have c: "\<not> 5 * Second < cooldownUntil (NewRateLimiter 0)"
    by (simp add: NewRateLimiter_def resetTimers_def zeroTime_def units_defs)
  from unconfigured_kind_allowed [OF h, of "5 * Second"] h c show ?thesis
    by simp
qed

section \<open>Pruning\<close>

lemma cleanHistory_history:
  "historyOf (cleanHistory now actionType rl) actionType
     = filter (\<lambda>t. now - 24 * Hour < t) (historyOf rl actionType)"
  by (simp add: cleanHistory_def historyOf_def Let_def split: option.splits)

lemma cleanHistory_other:
  "other \<noteq> actionType \<Longrightarrow>
     actionHistory (cleanHistory now actionType rl) other = actionHistory rl other"
  by (simp add: cleanHistory_def Let_def)

lemma ResetDaily_history:
  "historyOf (ResetDaily now rl) actionType
     = filter (\<lambda>t. now - 24 * Hour < t) (historyOf rl actionType)"
  using cleanHistory_history [of now actionType rl]
  by (simp add: ResetDaily_def historyOf_def)

lemma CanPerformAction_state:
  "snd (CanPerformAction now actionType rl) =
     (if now < cooldownUntil rl \<or> limits rl actionType = None then rl
      else cleanHistory now actionType rl)"
  by (simp add: CanPerformAction_def Let_def split: option.splits)

text \<open>
  C6. After a prune pass over a kind's history, every timestamp left in that history is
  later than 24 hours before the instant of the pass, and the pass adds no timestamp: when
  no entry was in the future, every entry left lies in the trailing 24-hour window.
  This holds after \<^verbatim>\<open>cleanHistory\<close> for the cleaned kind, after \<^verbatim>\<open>ResetDaily\<close> for every
  kind, and after \<^verbatim>\<open>CanPerformAction\<close> for the queried kind whenever the call gets to the
  prune pass (no cooldown, and a limit is configured).
\<close>

theorem prune_window:
  "(\<forall>t \<in> set (historyOf (cleanHistory now actionType rl) actionType). now - 24 * Hour < t) \<and>
   (\<forall>kind. \<forall>t \<in> set (historyOf (ResetDaily now rl) kind). now - 24 * Hour < t) \<and>
   (\<not> now < cooldownUntil rl \<and> limits rl actionType \<noteq> None \<longrightarrow>
      (\<forall>t \<in> set (historyOf (snd (CanPerformAction now actionType rl)) actionType).
         now - 24 * Hour < t)) \<and>
   set (historyOf (cleanHistory now actionType rl) actionType) \<subseteq> set (historyOf rl actionType) \<and>
   ((\<forall>t \<in> set (historyOf rl actionType). t \<le> now) \<longrightarrow>
      (\<forall>t \<in> set (historyOf (cleanHistory now actionType rl) actionType).
         now - 24 * Hour < t \<and> t \<le> now))"
  by (simp add: cleanHistory_history ResetDaily_history CanPerformAction_state)

theorem prune_window_witness:
  "historyOf (snd (RecordAction (30 * Hour) ActionLike
       (snd (RecordAction 0 ActionLike (NewRateLimiter 0))))) ActionLike = [0, 30 * Hour] \<and>
   historyOf (cleanHistory (31 * Hour) ActionLike
     (snd (RecordAction (30 * Hour) ActionLike
       (snd (RecordAction 0 ActionLike (NewRateLimiter 0)))))) ActionLike = [30 * Hour] \<and>
   historyOf (ResetDaily (31 * Hour)
     (snd (RecordAction (30 * Hour) ActionLike
       (snd (RecordAction 0 ActionLike (NewRateLimiter 0)))))) ActionLike = [30 * Hour] \<and>
   historyOf (snd (CanPerformAction (31 * Hour) ActionLike
     (snd (RecordAction (30 * Hour) ActionLike
       (snd (RecordAction 0 ActionLike (NewRateLimiter 0))))))) ActionLike = [30 * Hour] \<and>
   31 * Hour - 24 * Hour < 30 * Hour"
  using prune_window [of "31 * Hour" ActionLike
    "snd (RecordAction (30 * Hour) ActionLike (snd (RecordAction 0 ActionLike (NewRateLimiter 0))))"]
  by (simp add: limiter_defs ResetDaily_def kinds_defs units_defs)

section \<open>Construction of the scheduler and break times\<close>

text \<open>
  C8. \<^verbatim>\<open>NewActivityScheduler\<close> never fails: for every timezone name, whatever
  \<^verbatim>\<open>time.LoadLocation\<close> answers, the error returned is nil and the work hours are 9 and
  18. When the name resolves, the scheduler has that location; when it does not, it has
  UTC, and it equals the scheduler built from any name that resolves except for the
  timezone, which is UTC.
\<close>

theorem NewActivityScheduler_never_fails:
  "snd (NewActivityScheduler LoadLocation NewRand now timezoneName) = None \<and>
   workHoursStart (fst (NewActivityScheduler LoadLocation NewRand now timezoneName)) = 9 \<and>
   workHoursEnd (fst (NewActivityScheduler LoadLocation NewRand now timezoneName)) = 18 \<and>
   (\<forall>loc. LoadLocation timezoneName = Inr loc \<longrightarrow>
      timezone (fst (NewActivityScheduler LoadLocation NewRand now timezoneName)) = loc) \<and>
   (\<forall>err. LoadLocation timezoneName = Inl err \<longrightarrow>
      timezone (fst (NewActivityScheduler LoadLocation NewRand now timezoneName)) = UTC \<and>
      (\<forall>valid loc. LoadLocation valid = Inr loc \<longrightarrow>
         fst (NewActivityScheduler LoadLocation NewRand now timezoneName)
           = (fst (NewActivityScheduler LoadLocation NewRand now valid))\<lparr>timezone := UTC\<rparr>))"
  by (auto simp: NewActivityScheduler_def)

theorem NewActivityScheduler_never_fails_witness:
  "(\<lambda>name. if name = ''Asia/Kolkata'' then Inr (Zone ''Asia/Kolkata'')
            else Inl (''unknown time zone '' @ name)) ''Mars/Olympus''
     = Inl ''unknown time zone Mars/Olympus'' \<and>
   (\<lambda>name. if name = ''Asia/Kolkata'' then Inr (Zone ''Asia/Kolkata'')
            else Inl (''unknown time zone '' @ name)) ''Asia/Kolkata''
     = Inr (Zone ''Asia/Kolkata'') \<and>
   snd (NewActivityScheduler
      (\<lambda>name. if name = ''Asia/Kolkata'' then Inr (Zone ''Asia/Kolkata'')
               else Inl (''unknown time zone '' @ name))
      (\<lambda>seed. seed) 0 ''Mars/Olympus'') = None \<and>
   timezone (fst (NewActivityScheduler
      (\<lambda>name. if name = ''Asia/Kolkata'' then Inr (Zone ''Asia/Kolkata'')
               else Inl (''unknown time zone '' @ name))
      (\<lambda>seed. seed) 0 ''Mars/Olympus'')) = UTC \<and>
   fst (NewActivityScheduler
      (\<lambda>name. if name = ''Asia/Kolkata'' then Inr (Zone ''Asia/Kolkata'')
               else Inl (''unknown time zone '' @ name))
      (\<lambda>seed. seed) 0 ''Mars/Olympus'')
     = (fst (NewActivityScheduler
      (\<lambda>name. if name = ''Asia/Kolkata'' then Inr (Zone ''Asia/Kolkata'')
               else Inl (''unknown time zone '' @ name))
      (\<lambda>seed. seed) 0 ''Asia/Kolkata''))\<lparr>timezone := UTC\<rparr>"
  using NewActivityScheduler_never_fails
    [of "\<lambda>name. if name = ''Asia/Kolkata'' then Inr (Zone ''Asia/Kolkata'')
            else Inl (''unknown time zone '' @ name)" "\<lambda>seed. seed" 0 "''Mars/Olympus''"]
  by simp

text \<open>The two thresholds differ from 0.70 and 0.40 by less than \<open>1 / 2 ^ 53\<close>.\<close>

lemma float64_literals:
  "\<bar>float64_0_70 - 0.70\<bar> < 1 / 2 ^ 53"
  "\<bar>float64_0_40 - 0.40\<bar> < 1 / 2 ^ 53"
  by (simp_all add: float64_0_70_def float64_0_40_def abs_if)

text \<open>
  C9. Let the wall clock of the scheduler's timezone read \<open>hour:minute\<close>. Outside the
  bands 12:00 to 13:29, 10:00 to 10:14 and 15:00 to 15:14, \<^verbatim>\<open>IsBreakTime\<close> returns false
  for every state of the generator, and draws nothing. Inside a band it makes one draw and
  returns whether the draw is below the \<^verbatim>\<open>float64\<close> value of 0.70 (12:00 to 13:29) or
  of 0.40 (the other two). That the draw is uniform is a property of \<^verbatim>\<open>math/rand\<close>.
\<close>

theorem IsBreakTime_bands:
  assumes "hourMinuteIn (timezone as) now = (hour, minute)"
    and "0 \<le> hour" and "hour < 24" and "0 \<le> minute" and "minute < 60"
  shows "IsBreakTime hourMinuteIn Float64 now as =
     (if 12 * 60 + 0 \<le> 60 * hour + minute \<and> 60 * hour + minute \<le> 13 * 60 + 29 then
        (fst (Float64 (rand as)) < float64_0_70, as\<lparr>rand := snd (Float64 (rand as))\<rparr>)
      else if (10 * 60 + 0 \<le> 60 * hour + minute \<and> 60 * hour + minute \<le> 10 * 60 + 14)
            \<or> (15 * 60 + 0 \<le> 60 * hour + minute \<and> 60 * hour + minute \<le> 15 * 60 + 14) then
        (fst (Float64 (rand as)) < float64_0_40, as\<lparr>rand := snd (Float64 (rand as))\<rparr>)
      else (False, as))"
proof -
  have lunch: "(hour = 12 \<or> (hour = 13 \<and> minute < 30))
      = (12 * 60 + 0 \<le> 60 * hour + minute \<and> 60 * hour + minute \<le> 13 * 60 + 29)"
    using assms(2-5) by presburger
  have morning: "(hour = 10 \<and> minute < 15)
      = (10 * 60 + 0 \<le> 60 * hour + minute \<and> 60 * hour + minute \<le> 10 * 60 + 14)"
    using assms(2-5) by presburger
  have afternoon: "(hour = 15 \<and> minute < 15)
      = (15 * 60 + 0 \<le> 60 * hour + minute \<and> 60 * hour + minute \<le> 15 * 60 + 14)"
    using assms(2-5) by presburger
  have "IsBreakTime hourMinuteIn Float64 now as =
     (if hour = 12 \<or> (hour = 13 \<and> minute < 30) then
        (fst (Float64 (rand as)) < float64_0_70, as\<lparr>rand := snd (Float64 (rand as))\<rparr>)
      else if hour = 10 \<and> minute < 15 then
        (fst (Float64 (rand as)) < float64_0_40, as\<lparr>rand := snd (Float64 (rand as))\<rparr>)
      else if hour = 15 \<and> minute < 15 then
        (fst (Float64 (rand as)) < float64_0_40, as\<lparr>rand := snd (Float64 (rand as))\<rparr>)
      else (False, as))"
    using assms(1) by (simp add: IsBreakTime_def split: prod.splits)
  then show ?thesis
    unfolding lunch morning afternoon by auto
qed


theorem IsBreakTime_bands_witness:
  "IsBreakTime (\<lambda>loc t. ((t div Hour) mod 24, (t div Minute) mod 60)) (\<lambda>r. (r, r / 2))
      (45000 * Second)
      \<lparr>timezone = UTC, workHoursStart = 9, workHoursEnd = 18, breakTimes = [],
       lastActivityTime = zeroTime, dailyActionCount = 0, rand = 1 / 2\<rparr>
     = (True,
        \<lparr>timezone = UTC, workHoursStart = 9, workHoursEnd = 18, breakTimes = [],
         lastActivityTime = zeroTime, dailyActionCount = 0, rand = 1 / 4\<rparr>) \<and>
   IsBreakTime (\<lambda>loc t. ((t div Hour) mod 24, (t div Minute) mod 60)) (\<lambda>r. (r, r / 2))
      (32400 * Second)
      \<lparr>timezone = UTC, workHoursStart = 9, workHoursEnd = 18, breakTimes = [],
       lastActivityTime = zeroTime, dailyActionCount = 0, rand = 1 / 2\<rparr>
     = (False,
        \<lparr>timezone = UTC, workHoursStart = 9, workHoursEnd = 18, breakTimes = [],
         lastActivityTime = zeroTime, dailyActionCount = 0, rand = 1 / 2\<rparr>)"
proof -
  let ?clock = "\<lambda>(loc::Location) (t::int). ((t div Hour) mod 24, (t div Minute) mod 60)"
  let ?draw = "\<lambda>r::real. (r, r / 2)"
  let ?as = "\<lparr>timezone = UTC, workHoursStart = 9, workHoursEnd = 18, breakTimes = [],
       lastActivityTime = zeroTime, dailyActionCount = 0, rand = (1 / 2 :: real)\<rparr>"
  have a: "IsBreakTime ?clock ?draw (45000 * Second) ?as = (True, ?as\<lparr>rand := 1 / 4\<rparr>)"
    using IsBreakTime_bands [where hourMinuteIn = ?clock and as = ?as and now = "45000 * Second"
        and hour = 12 and minute = 30 and ?Float64.0 = ?draw]
    by (simp add: units_defs float64_0_70_def)
  have b: "IsBreakTime ?clock ?draw (32400 * Second) ?as = (False, ?as)"
    using IsBreakTime_bands [where hourMinuteIn = ?clock and as = ?as and now = "32400 * Second"
        and hour = 9 and minute = 0 and ?Float64.0 = ?draw]
    by (simp add: units_defs float64_0_70_def)
  from a b show ?thesis by simp
qed

section \<open>The recommended wait\<close>

lemmas record_defs =
  RecordAction_def NewRateLimiter_def resetTimers_def historyOf_def wrap_int64_def zeroTime_def
  Let_def

lemma Sub_exact:
  "minDuration \<le> t - u \<Longrightarrow> t - u \<le> maxDuration \<Longrightarrow> Sub t u = t - u"
  by (simp add: Sub_def)

lemma wrap_int64_exact:
  "minDuration \<le> d \<Longrightarrow> d \<le> maxDuration \<Longrightarrow> wrap_int64 d = d"
  by (simp add: wrap_int64_def minDuration_def maxDuration_def)

lemma Sub_nonneg: "u \<le> t \<Longrightarrow> 0 \<le> Sub t u"
  by (simp add: Sub_def minDuration_def maxDuration_def)

lemma GetWaitTime_configured:
  "limits rl actionType = Some limit \<Longrightarrow>
     GetWaitTime now1 now2 actionType rl =
       (if now1 < cooldownUntil rl then Sub (cooldownUntil rl) now2
        else if historyOf rl actionType = [] then 0
        else if Sub now2 (last (historyOf rl actionType)) < MinInterval limit
        then wrap_int64 (MinInterval limit - Sub now2 (last (historyOf rl actionType)))
        else 0)"
  by (simp add: GetWaitTime_def Let_def)

lemma GetWaitTime_unconfigured:
  "limits rl actionType = None \<Longrightarrow>
     GetWaitTime now1 now2 actionType rl =
       (if now1 < cooldownUntil rl then Sub (cooldownUntil rl) now2 else 0)"
  by (simp add: GetWaitTime_def)

text \<open>
  C4, as stated, fails: inside a cooldown \<^verbatim>\<open>GetWaitTime\<close> returns the remaining cooldown
  and does not look at the minimum interval. With the limits of \<^verbatim>\<open>NewRateLimiter\<close>,
  comments recorded at 0 s, 1 s and 2 s start a cooldown that ends at 902 s; a fourth
  comment is recorded at 900 s. At 901 s (both clock readings) the remaining cooldown is
  1 s and the remaining minimum interval is 119 s: the call returns 1 s, not the maximum,
  119 s.
\<close>

theorem GetWaitTime_max_counterexample:
  "map_option MinInterval
     (limits (snd (records ActionComment [0, 1 * Second, 2 * Second, 900 * Second] (NewRateLimiter 0)))
        ActionComment) = Some (120 * Second) \<and>
   last (historyOf (snd (records ActionComment [0, 1 * Second, 2 * Second, 900 * Second]
        (NewRateLimiter 0))) ActionComment) = 900 * Second \<and>
   cooldownUntil (snd (records ActionComment [0, 1 * Second, 2 * Second, 900 * Second]
        (NewRateLimiter 0))) = 902 * Second \<and>
   GetWaitTime (901 * Second) (901 * Second) ActionComment
     (snd (records ActionComment [0, 1 * Second, 2 * Second, 900 * Second] (NewRateLimiter 0)))
     = 1 * Second \<and>
   max (902 * Second - 901 * Second) (120 * Second - (901 * Second - 900 * Second)) = 119 * Second"
  by (simp add: limiter_defs range_defs kinds_defs units_defs)

text \<open>
  C4, amended. For a configured kind, \<^verbatim>\<open>GetWaitTime\<close> returns the remaining cooldown
  (\<^verbatim>\<open>time.Until(cooldownUntil)\<close>) whenever a cooldown is active at its first clock
  reading, whatever the remaining minimum interval; with no cooldown active it returns
  the remaining minimum interval when the history is not empty and less than
  \<^verbatim>\<open>MinInterval\<close> has elapsed since its last entry, and zero when the history is empty or
  at least \<^verbatim>\<open>MinInterval\<close> has elapsed. Inside a cooldown the result is the maximum of
  the two remaining times when the remaining minimum interval is not the longer one.
  The remaining times are Go's: \<open>Sub\<close> is the difference of its arguments and
  \<open>wrap_int64\<close> the identity wherever the value fits an \<^verbatim>\<open>int64\<close>.
\<close>

theorem GetWaitTime_cases:
  assumes "limits rl actionType = Some limit"
  shows "(now1 < cooldownUntil rl \<longrightarrow>
       GetWaitTime now1 now2 actionType rl = Sub (cooldownUntil rl) now2) \<and>
    (\<not> now1 < cooldownUntil rl \<and> historyOf rl actionType \<noteq> [] \<and>
       Sub now2 (last (historyOf rl actionType)) < MinInterval limit \<longrightarrow>
         GetWaitTime now1 now2 actionType rl
           = wrap_int64 (MinInterval limit - Sub now2 (last (historyOf rl actionType)))) \<and>
    (\<not> now1 < cooldownUntil rl \<and>
       (historyOf rl actionType = [] \<or>
        MinInterval limit \<le> Sub now2 (last (historyOf rl actionType))) \<longrightarrow>
         GetWaitTime now1 now2 actionType rl = 0) \<and>
    (now1 < cooldownUntil rl \<and> historyOf rl actionType \<noteq> [] \<and>
       wrap_int64 (MinInterval limit - Sub now2 (last (historyOf rl actionType)))
         \<le> Sub (cooldownUntil rl) now2 \<longrightarrow>
         GetWaitTime now1 now2 actionType rl
           = max (Sub (cooldownUntil rl) now2)
               (wrap_int64 (MinInterval limit - Sub now2 (last (historyOf rl actionType))))) \<and>
    (minDuration \<le> t - u \<and> t - u \<le> maxDuration \<longrightarrow> Sub t u = t - u) \<and>
    (minDuration \<le> d \<and> d \<le> maxDuration \<longrightarrow> wrap_int64 d = d)"
  using assms by (auto simp: GetWaitTime_configured Sub_exact wrap_int64_exact)

theorem GetWaitTime_cases_witness:
  "limits (snd (records ActionComment [0, 120 * Second, 240 * Second] (NewRateLimiter 0)))
     ActionComment
     = Some \<lparr>HourlyMax = 8, DailyMax = 30, MinInterval = 120 * Second,
             CooldownAfter = 3, CooldownDuration = 15 * Minute\<rparr> \<and>
   300 * Second
     < cooldownUntil (snd (records ActionComment [0, 120 * Second, 240 * Second] (NewRateLimiter 0))) \<and>
   GetWaitTime (300 * Second) (300 * Second) ActionComment
     (snd (records ActionComment [0, 120 * Second, 240 * Second] (NewRateLimiter 0)))
     = 840 * Second \<and>
   \<not> 1200 * Second
     < cooldownUntil (snd (records ActionComment [0, 120 * Second, 240 * Second] (NewRateLimiter 0))) \<and>
   GetWaitTime (1200 * Second) (1200 * Second) ActionComment
     (snd (records ActionComment [0, 120 * Second, 240 * Second] (NewRateLimiter 0))) = 0 \<and>
   limits (snd (records ActionComment [0] (NewRateLimiter 0))) ActionComment
     = Some \<lparr>HourlyMax = 8, DailyMax = 30, MinInterval = 120 * Second,
             CooldownAfter = 3, CooldownDuration = 15 * Minute\<rparr> \<and>
   \<not> 50 * Second < cooldownUntil (snd (records ActionComment [0] (NewRateLimiter 0))) \<and>
   GetWaitTime (50 * Second) (50 * Second) ActionComment
     (snd (records ActionComment [0] (NewRateLimiter 0)))
     = 70 * Second"
proof -
  let ?limit = "\<lparr>HourlyMax = 8, DailyMax = 30, MinInterval = 120 * Second,
             CooldownAfter = 3, CooldownDuration = 15 * Minute\<rparr>"
  let ?three = "snd (records ActionComment [0, 120 * Second, 240 * Second] (NewRateLimiter 0))"
  let ?one = "snd (records ActionComment [0] (NewRateLimiter 0))"
  have l3: "limits ?three ActionComment = Some ?limit"
    by (simp add: record_defs kinds_defs units_defs)
  have l1: "limits ?one ActionComment = Some ?limit"
    by (simp add: record_defs kinds_defs units_defs)
  have c3: "cooldownUntil ?three = 1140 * Second"
    by (simp add: record_defs kinds_defs units_defs)
  have c1: "cooldownUntil ?one = 0"
    by (simp add: record_defs kinds_defs units_defs)
  have h3: "historyOf ?three ActionComment = [0, 120 * Second, 240 * Second]"
    by (simp add: record_defs kinds_defs units_defs)
  have h1: "historyOf ?one ActionComment = [0]"
    by (simp add: record_defs kinds_defs units_defs)
  show ?thesis
    using GetWaitTime_cases [OF l3, of "300 * Second" "300 * Second" 0 0 0]
      GetWaitTime_cases [OF l3, of "1200 * Second" "1200 * Second" 0 0 0]
      GetWaitTime_cases [OF l1, of "50 * Second" "50 * Second" 0 0 0]
    apply (simp only: l3 l1 c3 c1 h3 h1)
    apply (simp add: units_defs range_defs del: records.simps)
    done
qed

text \<open>
  C5, as stated, fails twice in the limiter of the previous counterexample, whose cooldown
  ends at 902 s. The wait is one nanosecond for a call at the last instant of the cooldown
  and 118 s for a call one nanosecond later, when the cooldown is over and the minimum
  interval since the comment at 900 s decides: it jumps upward. And a call whose first
  clock reading is that last instant and whose second reading is 60 ns later returns
  \<^verbatim>\<open>time.Until\<close> of a cooldown end then 59 ns in the past: a negative wait.
\<close>

theorem GetWaitTime_jump_counterexample:
  "GetWaitTime (902 * Second - 1) (902 * Second - 1) ActionComment
     (snd (records ActionComment [0, 1 * Second, 2 * Second, 900 * Second] (NewRateLimiter 0)))
     = 1 \<and>
   GetWaitTime (902 * Second) (902 * Second) ActionComment
     (snd (records ActionComment [0, 1 * Second, 2 * Second, 900 * Second] (NewRateLimiter 0)))
     = 118 * Second \<and>
   GetWaitTime (902 * Second - 1) (902 * Second + 59) ActionComment
     (snd (records ActionComment [0, 1 * Second, 2 * Second, 900 * Second] (NewRateLimiter 0)))
     = - 59"
  by (simp add: limiter_defs range_defs kinds_defs units_defs)

text \<open>
  The bounds in the amended claim are needed: where a duration does not fit an
  \<^verbatim>\<open>int64\<close> the subtraction wraps around. With a \<^verbatim>\<open>MinInterval\<close> of the largest duration
  and a last entry one nanosecond after the clock reading, the wait is the smallest
  duration.
\<close>

lemma GetWaitTime_wraps:
  "GetWaitTime 9 9 ActionLike
     \<lparr>limits = [ActionLike \<mapsto>
         \<lparr>HourlyMax = 25, DailyMax = 120, MinInterval = maxDuration,
          CooldownAfter = 8, CooldownDuration = 5 * Minute\<rparr>],
      actionHistory = [ActionLike \<mapsto> [10]],
      dailyResetTime = zeroTime, hourlyResetTime = zeroTime, cooldownUntil = zeroTime,
      consecutiveActions = 0\<rparr>
     = minDuration"
  by (simp add: limiter_defs range_defs)

lemma GetWaitTime_in_cooldown:
  assumes "a < cooldownUntil rl"
    and "cooldownUntil rl - b \<le> maxDuration" and "b - cooldownUntil rl \<le> maxDuration"
  shows "GetWaitTime a b actionType rl = cooldownUntil rl - b"
proof -
  have "minDuration \<le> cooldownUntil rl - b"
    using assms(3) by (simp add: minDuration_def maxDuration_def)
  then have "Sub (cooldownUntil rl) b = cooldownUntil rl - b"
    using assms(2) by (rule Sub_exact)
  then show ?thesis
    using assms(1) by (simp add: GetWaitTime_def)
qed

lemma GetWaitTime_after_cooldown:
  assumes "\<not> a < cooldownUntil rl"
    and "limits rl actionType = Some limit"
    and "historyOf rl actionType \<noteq> []"
    and "last (historyOf rl actionType) \<le> b"
    and "b - last (historyOf rl actionType) \<le> maxDuration"
    and "MinInterval limit \<le> maxDuration"
  shows "GetWaitTime a b actionType rl
    = max 0 (MinInterval limit - (b - last (historyOf rl actionType)))"
proof -
  let ?e = "b - last (historyOf rl actionType)"
  have e: "Sub b (last (historyOf rl actionType)) = ?e"
    using assms(4,5) by (intro Sub_exact) (simp_all add: minDuration_def)
  have w: "wrap_int64 (MinInterval limit - ?e) = MinInterval limit - ?e"
    if "?e < MinInterval limit"
    using that assms(4,6) by (intro wrap_int64_exact) (simp_all add: minDuration_def)
  show ?thesis
    using assms(1,3) w by (simp add: GetWaitTime_configured [OF assms(2)] e)
qed

lemma GetWaitTime_nonneg_after_cooldown:
  assumes "\<not> a < cooldownUntil rl"
    and "\<forall>limit. limits rl actionType = Some limit \<longrightarrow> historyOf rl actionType \<noteq> [] \<longrightarrow>
           last (historyOf rl actionType) \<le> b \<and> MinInterval limit \<le> maxDuration"
  shows "0 \<le> GetWaitTime a b actionType rl"
proof (cases "limits rl actionType")
  case None
  with assms(1) show ?thesis
    by (simp add: GetWaitTime_unconfigured)
next
  case (Some limit)
  show ?thesis
  proof (cases "historyOf rl actionType = []")
    case True
    with assms(1) show ?thesis
      by (simp add: GetWaitTime_configured [OF Some])
  next
    case False
    let ?e = "Sub b (last (historyOf rl actionType))"
    from assms(2) Some False
    have fresh: "last (historyOf rl actionType) \<le> b" and fits: "MinInterval limit \<le> maxDuration"
      by simp_all
    have e: "0 \<le> ?e"
      using fresh by (rule Sub_nonneg)
    have "0 \<le> wrap_int64 (MinInterval limit - ?e)" if "?e < MinInterval limit"
    proof -
      have "wrap_int64 (MinInterval limit - ?e) = MinInterval limit - ?e"
        using that e fits by (intro wrap_int64_exact) (simp_all add: minDuration_def)
      with that show ?thesis by simp
    qed
    with assms(1) False show ?thesis
      by (simp add: GetWaitTime_configured [OF Some])
  qed
qed

text \<open>
  C5, amended. Write \<open>now1\<close> and \<open>now2\<close> for the two clock readings of a call. A call
  whose second reading is not after the cooldown end, or whose first reading is not
  before it, returns a wait that is not negative (in the second case provided the last
  entry of the kind is not later than the second reading and \<^verbatim>\<open>MinInterval\<close> is an
  \<^verbatim>\<open>int64\<close>). Between two such calls on an unchanged limiter, the second reading
  advancing from \<open>b1\<close> to \<open>b2\<close>: when both calls are made before the cooldown end the
  wait falls by exactly \<open>b2 - b1\<close>; when both are made not before it the wait falls by
  exactly \<open>b2 - b1\<close>, floored at zero; so in either case it does not increase, and it
  decreases strictly while it is positive. The wait is zero for every call that is made
  not before the cooldown end and for which \<^verbatim>\<open>MinInterval\<close> has elapsed since the last
  entry. The equalities are for durations within 292 years, where \<open>Sub\<close> does not
  saturate and nothing wraps.
\<close>

theorem GetWaitTime_over_time:
  "(now1 < cooldownUntil rl \<and> now2 \<le> cooldownUntil rl \<longrightarrow>
      0 \<le> GetWaitTime now1 now2 actionType rl) \<and>
   (\<not> now1 < cooldownUntil rl \<and>
    (\<forall>limit. limits rl actionType = Some limit \<longrightarrow> historyOf rl actionType \<noteq> [] \<longrightarrow>
       last (historyOf rl actionType) \<le> now2 \<and> MinInterval limit \<le> maxDuration) \<longrightarrow>
      0 \<le> GetWaitTime now1 now2 actionType rl) \<and>
   (a1 < cooldownUntil rl \<and> a2 < cooldownUntil rl \<and> b1 \<le> b2 \<and> b2 \<le> cooldownUntil rl \<and>
    cooldownUntil rl - b1 \<le> maxDuration \<longrightarrow>
      GetWaitTime a2 b2 actionType rl = GetWaitTime a1 b1 actionType rl - (b2 - b1) \<and>
      GetWaitTime a2 b2 actionType rl \<le> GetWaitTime a1 b1 actionType rl \<and>
      (b1 < b2 \<longrightarrow> GetWaitTime a2 b2 actionType rl < GetWaitTime a1 b1 actionType rl)) \<and>
   (\<not> a1 < cooldownUntil rl \<and> \<not> a2 < cooldownUntil rl \<and> b1 \<le> b2 \<and>
    (\<forall>limit. limits rl actionType = Some limit \<longrightarrow> historyOf rl actionType \<noteq> [] \<longrightarrow>
       last (historyOf rl actionType) \<le> b1 \<and>
       b2 - last (historyOf rl actionType) \<le> maxDuration \<and>
       MinInterval limit \<le> maxDuration) \<longrightarrow>
      GetWaitTime a2 b2 actionType rl = max 0 (GetWaitTime a1 b1 actionType rl - (b2 - b1)) \<and>
      GetWaitTime a2 b2 actionType rl \<le> GetWaitTime a1 b1 actionType rl \<and>
      (b1 < b2 \<and> 0 < GetWaitTime a1 b1 actionType rl \<longrightarrow>
         GetWaitTime a2 b2 actionType rl < GetWaitTime a1 b1 actionType rl)) \<and>
   (\<not> now1 < cooldownUntil rl \<and>
    (\<forall>limit. limits rl actionType = Some limit \<longrightarrow>
       historyOf rl actionType = [] \<or>
       MinInterval limit \<le> Sub now2 (last (historyOf rl actionType))) \<longrightarrow>
      GetWaitTime now1 now2 actionType rl = 0)"
proof -
  have ending: "0 \<le> GetWaitTime now1 now2 actionType rl"
    if "now1 < cooldownUntil rl" and "now2 \<le> cooldownUntil rl"
    using that Sub_nonneg [of now2 "cooldownUntil rl"] by (simp add: GetWaitTime_def)
  have cooling: "GetWaitTime a2 b2 actionType rl = GetWaitTime a1 b1 actionType rl - (b2 - b1) \<and>
      GetWaitTime a2 b2 actionType rl \<le> GetWaitTime a1 b1 actionType rl \<and>
      (b1 < b2 \<longrightarrow> GetWaitTime a2 b2 actionType rl < GetWaitTime a1 b1 actionType rl)"
    if "a1 < cooldownUntil rl" and "a2 < cooldownUntil rl" and "b1 \<le> b2"
      and "b2 \<le> cooldownUntil rl" and "cooldownUntil rl - b1 \<le> maxDuration"
  proof -
    have "GetWaitTime a1 b1 actionType rl = cooldownUntil rl - b1"
      using that by (intro GetWaitTime_in_cooldown) (simp_all add: maxDuration_def)
    moreover have "GetWaitTime a2 b2 actionType rl = cooldownUntil rl - b2"
      using that by (intro GetWaitTime_in_cooldown) (simp_all add: maxDuration_def)
    ultimately show ?thesis
      using that(3) by simp
  qed
  have after: "GetWaitTime a2 b2 actionType rl
      = max 0 (GetWaitTime a1 b1 actionType rl - (b2 - b1)) \<and>
      GetWaitTime a2 b2 actionType rl \<le> GetWaitTime a1 b1 actionType rl \<and>
      (b1 < b2 \<and> 0 < GetWaitTime a1 b1 actionType rl \<longrightarrow>
         GetWaitTime a2 b2 actionType rl < GetWaitTime a1 b1 actionType rl)"
    if late: "\<not> a1 < cooldownUntil rl" "\<not> a2 < cooldownUntil rl" and order: "b1 \<le> b2"
      and range: "\<forall>limit. limits rl actionType = Some limit \<longrightarrow>
        historyOf rl actionType \<noteq> [] \<longrightarrow>
          last (historyOf rl actionType) \<le> b1 \<and>
          b2 - last (historyOf rl actionType) \<le> maxDuration \<and>
          MinInterval limit \<le> maxDuration"
  proof (cases "limits rl actionType")
    case None
    with late order show ?thesis
      by (simp add: GetWaitTime_unconfigured)
  next
    case (Some limit)
    show ?thesis
    proof (cases "historyOf rl actionType = []")
      case True
      with late order show ?thesis
        by (simp add: GetWaitTime_configured [OF Some])
    next
      case False
      from range Some False
      have r: "last (historyOf rl actionType) \<le> b1"
        "b2 - last (historyOf rl actionType) \<le> maxDuration"
        "MinInterval limit \<le> maxDuration"
        by simp_all
      have "GetWaitTime a1 b1 actionType rl
          = max 0 (MinInterval limit - (b1 - last (historyOf rl actionType)))"
        using late(1) Some False r order by (intro GetWaitTime_after_cooldown) simp_all
      moreover have "GetWaitTime a2 b2 actionType rl
          = max 0 (MinInterval limit - (b2 - last (historyOf rl actionType)))"
        using late(2) Some False r order by (intro GetWaitTime_after_cooldown) simp_all
      ultimately show ?thesis
        using order by (auto simp: max_def)
    qed
  qed
  have elapsed: "GetWaitTime now1 now2 actionType rl = 0"
    if "\<not> now1 < cooldownUntil rl"
      and "\<forall>limit. limits rl actionType = Some limit \<longrightarrow>
        historyOf rl actionType = [] \<or>
        MinInterval limit \<le> Sub now2 (last (historyOf rl actionType))"
    using that
    by (cases "limits rl actionType")
      (auto simp: GetWaitTime_unconfigured GetWaitTime_configured)
  have settled: "0 \<le> GetWaitTime now1 now2 actionType rl"
    if "\<not> now1 < cooldownUntil rl"
      and "\<forall>limit. limits rl actionType = Some limit \<longrightarrow>
        historyOf rl actionType \<noteq> [] \<longrightarrow>
          last (historyOf rl actionType) \<le> now2 \<and> MinInterval limit \<le> maxDuration"
    using that by (rule GetWaitTime_nonneg_after_cooldown)
  show ?thesis
    using ending settled cooling after elapsed
    by blast
qed

theorem GetWaitTime_over_time_witness:
  "cooldownUntil (snd (records ActionComment [0, 120 * Second, 240 * Second] (NewRateLimiter 0)))
     = 1140 * Second \<and>
   GetWaitTime (300 * Second) (300 * Second) ActionComment
     (snd (records ActionComment [0, 120 * Second, 240 * Second] (NewRateLimiter 0)))
     = 840 * Second \<and>
   GetWaitTime (400 * Second) (400 * Second) ActionComment
     (snd (records ActionComment [0, 120 * Second, 240 * Second] (NewRateLimiter 0)))
     = 740 * Second \<and>
   cooldownUntil (snd (records ActionComment [0] (NewRateLimiter 0))) = 0 \<and>
   GetWaitTime (50 * Second) (50 * Second) ActionComment
     (snd (records ActionComment [0] (NewRateLimiter 0))) = 70 * Second \<and>
   GetWaitTime (80 * Second) (80 * Second) ActionComment
     (snd (records ActionComment [0] (NewRateLimiter 0))) = 40 * Second \<and>
   GetWaitTime (120 * Second) (120 * Second) ActionComment
     (snd (records ActionComment [0] (NewRateLimiter 0))) = 0"
proof -
  let ?limit = "\<lparr>HourlyMax = 8, DailyMax = 30, MinInterval = 120 * Second,
             CooldownAfter = 3, CooldownDuration = 15 * Minute\<rparr>"
  let ?three = "snd (records ActionComment [0, 120 * Second, 240 * Second] (NewRateLimiter 0))"
  let ?one = "snd (records ActionComment [0] (NewRateLimiter 0))"
  have l3: "limits ?three ActionComment = Some ?limit"
    by (simp add: record_defs kinds_defs units_defs)
  have l1: "limits ?one ActionComment = Some ?limit"
    by (simp add: record_defs kinds_defs units_defs)
  have c3: "cooldownUntil ?three = 1140 * Second"
    by (simp add: record_defs kinds_defs units_defs)
  have c1: "cooldownUntil ?one = 0"
    by (simp add: record_defs kinds_defs units_defs)
  have h3: "historyOf ?three ActionComment = [0, 120 * Second, 240 * Second]"
    by (simp add: record_defs kinds_defs units_defs)
  have h1: "historyOf ?one ActionComment = [0]"
    by (simp add: record_defs kinds_defs units_defs)
  have w3: "GetWaitTime (300 * Second) (300 * Second) ActionComment ?three = 840 * Second"
    unfolding GetWaitTime_configured [OF l3] c3 h3
    by (simp add: units_defs range_defs)
  have w1: "GetWaitTime (50 * Second) (50 * Second) ActionComment ?one = 70 * Second"
    unfolding GetWaitTime_configured [OF l1] c1 h1
    by (simp add: units_defs range_defs)
  show ?thesis
    using GetWaitTime_over_time
        [where rl = ?three and actionType = ActionComment
          and ?now1.0 = "300 * Second" and ?now2.0 = "300 * Second"
          and ?a1.0 = "300 * Second" and ?b1.0 = "300 * Second"
          and ?a2.0 = "400 * Second" and ?b2.0 = "400 * Second"]
      GetWaitTime_over_time
        [where rl = ?one and actionType = ActionComment
          and ?now1.0 = "120 * Second" and ?now2.0 = "120 * Second"
          and ?a1.0 = "50 * Second" and ?b1.0 = "50 * Second"
          and ?a2.0 = "80 * Second" and ?b2.0 = "80 * Second"]
    apply (simp only: l3 l1 c3 c1 h3 h1 w3 w1)
    apply (simp add: units_defs range_defs del: records.simps)
    done
qed

section \<open>What the permission check changes\<close>

lemma cleanHistory_fields:
  "limits (cleanHistory now actionType rl) = limits rl"
  "dailyResetTime (cleanHistory now actionType rl) = dailyResetTime rl"
  "hourlyResetTime (cleanHistory now actionType rl) = hourlyResetTime rl"
  "cooldownUntil (cleanHistory now actionType rl) = cooldownUntil rl"
  "consecutiveActions (cleanHistory now actionType rl) = consecutiveActions rl"
  by (simp_all add: cleanHistory_def Let_def)

lemma historyOf_cleanHistory_other:
  "other \<noteq> actionType \<Longrightarrow>
     historyOf (cleanHistory now actionType rl) other = historyOf rl other"
  by (simp add: historyOf_def cleanHistory_other)

lemma cleanHistory_nothing_old:
  assumes "\<forall>t \<in> set (historyOf rl actionType). now - 24 * Hour < t"
  shows "cleanHistory now actionType rl = rl"
proof (cases "actionHistory rl actionType")
  case None
  then show ?thesis
    by (simp add: cleanHistory_def historyOf_def)
next
  case (Some h)
  with assms have "filter (\<lambda>t. now - 24 * Hour < t) h = h"
    by (simp add: historyOf_def)
  moreover from Some have "(actionHistory rl)(actionType \<mapsto> h) = actionHistory rl"
    by (simp add: fun_upd_idem)
  ultimately show ?thesis
    using Some by (simp add: cleanHistory_def historyOf_def Let_def)
qed

lemma cleanHistory_idem:
  "cleanHistory now actionType (cleanHistory now actionType rl) = cleanHistory now actionType rl"
  by (rule cleanHistory_nothing_old) (simp add: cleanHistory_history)

lemma CanPerformAction_answer_cong:
  assumes "cooldownUntil a = cooldownUntil b"
    and "limits a actionType = limits b actionType"
    and "filter (\<lambda>t. now - 24 * Hour < t) (historyOf a actionType)
       = filter (\<lambda>t. now - 24 * Hour < t) (historyOf b actionType)"
  shows "fst (CanPerformAction now actionType a) = fst (CanPerformAction now actionType b)"
  using assms
  by (simp add: CanPerformAction_def cleanHistory_history Let_def split: option.splits)

lemma CanPerformAction_fields:
  "limits (snd (CanPerformAction now actionType rl)) = limits rl"
  "dailyResetTime (snd (CanPerformAction now actionType rl)) = dailyResetTime rl"
  "hourlyResetTime (snd (CanPerformAction now actionType rl)) = hourlyResetTime rl"
  "cooldownUntil (snd (CanPerformAction now actionType rl)) = cooldownUntil rl"
  "consecutiveActions (snd (CanPerformAction now actionType rl)) = consecutiveActions rl"
  by (simp_all add: CanPerformAction_state cleanHistory_fields)

lemma CanPerformAction_history:
  "historyOf (snd (CanPerformAction now actionType rl)) kind =
     (if kind \<noteq> actionType \<or> now < cooldownUntil rl \<or> limits rl actionType = None
      then historyOf rl kind
      else filter (\<lambda>t. now - 24 * Hour < t) (historyOf rl kind))"
  by (auto simp: CanPerformAction_state cleanHistory_history historyOf_cleanHistory_other)

lemma checks_same_instant:
  "cooldownUntil (checks (map (Pair now) kinds) rl) = cooldownUntil rl \<and>
   limits (checks (map (Pair now) kinds) rl) = limits rl \<and>
   filter (\<lambda>t. now - 24 * Hour < t) (historyOf (checks (map (Pair now) kinds) rl) actionType)
     = filter (\<lambda>t. now - 24 * Hour < t) (historyOf rl actionType)"
proof (induction kinds arbitrary: rl)
  case Nil
  show ?case by simp
next
  case (Cons kind kinds)
  show ?case
    using Cons.IH [of "snd (CanPerformAction now kind rl)"]
    by (simp add: CanPerformAction_fields CanPerformAction_history)
qed

text \<open>
  C2, as stated, fails: \<^verbatim>\<open>CanPerformAction\<close> calls \<^verbatim>\<open>cleanHistory\<close> on the queried kind.
  A like recorded at instant 0 is in the history; a check 25 hours later is allowed and
  leaves that history empty.
\<close>

theorem CanPerformAction_prunes_counterexample:
  "actionHistory (snd (RecordAction 0 ActionLike (NewRateLimiter 0))) ActionLike = Some [0] \<and>
   fst (CanPerformAction (25 * Hour) ActionLike (snd (RecordAction 0 ActionLike (NewRateLimiter 0))))
     = (True, '''') \<and>
   actionHistory (snd (CanPerformAction (25 * Hour) ActionLike
       (snd (RecordAction 0 ActionLike (NewRateLimiter 0))))) ActionLike = Some []"
  by (simp add: limiter_defs kinds_defs units_defs)

text \<open>
  C2, amended. \<^verbatim>\<open>CanPerformAction\<close> leaves the limits, the reset times, the cooldown end,
  the counter and the histories of all other kinds unchanged. The history of the queried
  kind is unchanged when the call is refused by the cooldown or the kind has no limit, and
  otherwise loses exactly its entries that are not later than 24 hours before the call;
  so the whole limiter is unchanged when no entry is that old. A second call at the same
  instant changes nothing more and returns the same result, and so does a call after any
  run of calls for any kinds at that instant.
\<close>

theorem CanPerformAction_frame:
  "limits (snd (CanPerformAction now actionType rl)) = limits rl \<and>
   dailyResetTime (snd (CanPerformAction now actionType rl)) = dailyResetTime rl \<and>
   hourlyResetTime (snd (CanPerformAction now actionType rl)) = hourlyResetTime rl \<and>
   cooldownUntil (snd (CanPerformAction now actionType rl)) = cooldownUntil rl \<and>
   consecutiveActions (snd (CanPerformAction now actionType rl)) = consecutiveActions rl \<and>
   (\<forall>other. other \<noteq> actionType \<longrightarrow>
      actionHistory (snd (CanPerformAction now actionType rl)) other = actionHistory rl other) \<and>
   historyOf (snd (CanPerformAction now actionType rl)) actionType =
     (if now < cooldownUntil rl \<or> limits rl actionType = None then historyOf rl actionType
      else filter (\<lambda>t. now - 24 * Hour < t) (historyOf rl actionType)) \<and>
   ((\<forall>t \<in> set (historyOf rl actionType). now - 24 * Hour < t) \<longrightarrow>
      snd (CanPerformAction now actionType rl) = rl) \<and>
   CanPerformAction now actionType (snd (CanPerformAction now actionType rl))
     = CanPerformAction now actionType rl \<and>
   (\<forall>kinds. fst (CanPerformAction now actionType (checks (map (Pair now) kinds) rl))
      = fst (CanPerformAction now actionType rl))"
proof -
  have other: "\<forall>other. other \<noteq> actionType \<longrightarrow>
      actionHistory (snd (CanPerformAction now actionType rl)) other = actionHistory rl other"
    by (simp add: CanPerformAction_state cleanHistory_other)
  have fresh: "(\<forall>t \<in> set (historyOf rl actionType). now - 24 * Hour < t) \<longrightarrow>
      snd (CanPerformAction now actionType rl) = rl"
    by (simp add: CanPerformAction_state cleanHistory_nothing_old)
  have state: "snd (CanPerformAction now actionType (snd (CanPerformAction now actionType rl)))
      = snd (CanPerformAction now actionType rl)"
    by (simp add: CanPerformAction_state cleanHistory_fields cleanHistory_idem)
  have answer: "fst (CanPerformAction now actionType (snd (CanPerformAction now actionType rl)))
      = fst (CanPerformAction now actionType rl)"
    by (rule CanPerformAction_answer_cong)
      (simp_all add: CanPerformAction_fields CanPerformAction_history)
  have again: "CanPerformAction now actionType (snd (CanPerformAction now actionType rl))
     = CanPerformAction now actionType rl"
    using state answer by (simp add: prod_eq_iff)
  have run: "\<forall>kinds. fst (CanPerformAction now actionType (checks (map (Pair now) kinds) rl))
      = fst (CanPerformAction now actionType rl)"
    using checks_same_instant [of now _ rl actionType]
    by (auto intro!: CanPerformAction_answer_cong)
  show ?thesis
    using other fresh again run
    by (simp add: CanPerformAction_fields CanPerformAction_history)
qed

theorem CanPerformAction_frame_witness:
  "historyOf (snd (RecordAction 0 ActionLike (NewRateLimiter 0))) ActionLike = [0] \<and>
   historyOf (snd (CanPerformAction (25 * Hour) ActionLike
     (snd (RecordAction 0 ActionLike (NewRateLimiter 0))))) ActionLike = [] \<and>
   actionHistory (snd (CanPerformAction (25 * Hour) ActionLike
     (snd (RecordAction 0 ActionLike (NewRateLimiter 0))))) ActionComment
     = actionHistory (snd (RecordAction 0 ActionLike (NewRateLimiter 0))) ActionComment \<and>
   40 * Second - 24 * Hour < 0 \<and>
   snd (CanPerformAction (40 * Second) ActionLike (snd (RecordAction 0 ActionLike (NewRateLimiter 0))))
     = snd (RecordAction 0 ActionLike (NewRateLimiter 0)) \<and>
   fst (CanPerformAction (25 * Hour) ActionLike
     (checks [(25 * Hour, ActionLike), (25 * Hour, ActionComment)]
        (snd (RecordAction 0 ActionLike (NewRateLimiter 0)))))
     = fst (CanPerformAction (25 * Hour) ActionLike
         (snd (RecordAction 0 ActionLike (NewRateLimiter 0))))"
proof -
  let ?rl = "snd (RecordAction 0 ActionLike (NewRateLimiter 0))"
  note day = CanPerformAction_frame [of "25 * Hour" ActionLike ?rl]
  note soon = CanPerformAction_frame [of "40 * Second" ActionLike ?rl]
  have h: "historyOf ?rl ActionLike = [0]"
    by (simp add: record_defs kinds_defs units_defs)
  have c: "cooldownUntil ?rl = 0"
    by (simp add: record_defs kinds_defs units_defs)
  have l: "limits ?rl ActionLike \<noteq> None"
    by (simp add: record_defs kinds_defs units_defs)
  have k: "ActionComment \<noteq> ActionLike"
    by (simp add: kinds_defs)
  have pruned: "historyOf (snd (CanPerformAction (25 * Hour) ActionLike ?rl)) ActionLike = []"
    using day h c l by (simp add: units_defs)
  have other: "actionHistory (snd (CanPerformAction (25 * Hour) ActionLike ?rl)) ActionComment
     = actionHistory ?rl ActionComment"
    using day k by blast
  have recent: "\<forall>t \<in> set (historyOf ?rl ActionLike). 40 * Second - 24 * Hour < t"
    by (simp add: h units_defs)
  have same: "snd (CanPerformAction (40 * Second) ActionLike ?rl) = ?rl"
    using soon recent by blast
  have "fst (CanPerformAction (25 * Hour) ActionLike
      (checks (map (Pair (25 * Hour)) [ActionLike, ActionComment]) ?rl))
     = fst (CanPerformAction (25 * Hour) ActionLike ?rl)"
    using day by blast
  then have run: "fst (CanPerformAction (25 * Hour) ActionLike
      (checks [(25 * Hour, ActionLike), (25 * Hour, ActionComment)] ?rl))
     = fst (CanPerformAction (25 * Hour) ActionLike ?rl)"
    by (simp del: checks.simps)
  have fresh: "40 * Second - 24 * Hour < 0"
    by (simp add: units_defs)
  from h pruned other fresh same run show ?thesis
    by blast
qed

section \<open>The cooldown scenario\<close>

lemma RecordAction_configured:
  assumes "limits rl actionType = Some limit"
  shows "fst (RecordAction now actionType rl) = None"
    and "limits (snd (RecordAction now actionType rl)) = limits rl"
    and "historyOf (snd (RecordAction now actionType rl)) actionType
           = historyOf rl actionType @ [now]"
    and "cooldownUntil (snd (RecordAction now actionType rl)) =
           (if CooldownAfter limit \<le> wrap_int64 (consecutiveActions rl + 1)
            then now + CooldownDuration limit else cooldownUntil rl)"
    and "consecutiveActions (snd (RecordAction now actionType rl)) =
           (if CooldownAfter limit \<le> wrap_int64 (consecutiveActions rl + 1)
            then 0 else wrap_int64 (consecutiveActions rl + 1))"
  using assms by (simp_all add: RecordAction_def Let_def historyOf_def)

lemma countLoop_le: "countLoop cutoff xs count \<le> count + int (length xs)"
proof (induction xs arbitrary: count)
  case Nil
  show ?case by simp
next
  case (Cons t older)
  show ?case
    using Cons.IH [of "count + 1"] by simp
qed

lemma countActionsInWindow_le: "countActionsInWindow now history window \<le> int (length history)"
  using countLoop_le [of "now + (- window)" "rev history" 0]
  by (simp add: countActionsInWindow_def)

lemma checks_fields:
  "limits (checks earlier rl) = limits rl"
  "cooldownUntil (checks earlier rl) = cooldownUntil rl"
  "consecutiveActions (checks earlier rl) = consecutiveActions rl"
  by (induction earlier rl rule: checks.induct) (simp_all add: CanPerformAction_fields)

lemma checks_history:
  "set (historyOf (checks earlier rl) kind) \<subseteq> set (historyOf rl kind) \<and>
   length (historyOf (checks earlier rl) kind) \<le> length (historyOf rl kind)"
proof (induction earlier rl rule: checks.induct)
  case (1 rl)
  show ?case by simp
next
  case (2 now actionType later rl)
  have "set (historyOf (snd (CanPerformAction now actionType rl)) kind) \<subseteq> set (historyOf rl kind)"
    by (auto simp: CanPerformAction_history)
  moreover have "length (historyOf (snd (CanPerformAction now actionType rl)) kind)
      \<le> length (historyOf rl kind)"
    by (simp add: CanPerformAction_history)
  ultimately show ?case
    using "2.IH" by auto
qed

lemma CanPerformAction_allowed:
  assumes cool: "\<not> now < cooldownUntil rl"
    and lim: "limits rl actionType = Some limit"
    and hourly: "int (length (historyOf rl actionType)) < HourlyMax limit"
    and daily: "int (length (historyOf rl actionType)) < DailyMax limit"
    and spaced: "\<forall>t \<in> set (historyOf rl actionType). MinInterval limit \<le> now - t"
  shows "fst (CanPerformAction now actionType rl) = (True, '''')"
proof -
  let ?history = "filter (\<lambda>t. now - 24 * Hour < t) (historyOf rl actionType)"
  have len: "int (length ?history) \<le> int (length (historyOf rl actionType))"
    by simp
  have h: "countActionsInWindow now ?history Hour < HourlyMax limit"
    using countActionsInWindow_le [of now ?history Hour] len hourly by linarith
  have d: "countActionsInWindow now ?history (24 * Hour) < DailyMax limit"
    using countActionsInWindow_le [of now ?history "24 * Hour"] len daily by linarith
  have m: "?history \<noteq> [] \<Longrightarrow> MinInterval limit \<le> now - last ?history"
  proof -
    assume "?history \<noteq> []"
    then have "last ?history \<in> set ?history"
      by (rule last_in_set)
    then have "last ?history \<in> set (historyOf rl actionType)"
      by simp
    with spaced show ?thesis
      by blast
  qed
  show ?thesis
    using cool lim h d m
    by (auto simp: CanPerformAction_def cleanHistory_history Let_def)
qed


lemma five_requests_state:
  "fst (five_requests created T0) = [None, None, None, None, None]"
  "limits (snd (five_requests created T0)) ActionConnectionReq =
     Some \<lparr>HourlyMax = 10, DailyMax = 50, MinInterval = 90 * Second,
           CooldownAfter = 5, CooldownDuration = 10 * Minute\<rparr>"
  "historyOf (snd (five_requests created T0)) ActionConnectionReq =
     [T0, T0 + 90 * Second, T0 + 180 * Second, T0 + 270 * Second, T0 + 360 * Second]"
  "cooldownUntil (snd (five_requests created T0)) = T0 + 960 * Second"
  "consecutiveActions (snd (five_requests created T0)) = 0"
proof -
  let ?limit = "\<lparr>HourlyMax = 10, DailyMax = 50, MinInterval = 90 * Second,
           CooldownAfter = 5, CooldownDuration = 10 * Minute\<rparr>"
  define s0 where "s0 = NewRateLimiter created"
  define s1 where "s1 = snd (RecordAction T0 ActionConnectionReq s0)"
  define s2 where "s2 = snd (RecordAction (T0 + 90 * Second) ActionConnectionReq s1)"
  define s3 where "s3 = snd (RecordAction (T0 + 180 * Second) ActionConnectionReq s2)"
  define s4 where "s4 = snd (RecordAction (T0 + 270 * Second) ActionConnectionReq s3)"
  define s5 where "s5 = snd (RecordAction (T0 + 360 * Second) ActionConnectionReq s4)"
  have l0: "limits s0 ActionConnectionReq = Some ?limit"
    and h0: "historyOf s0 ActionConnectionReq = []"
    and c0: "consecutiveActions s0 = 0"
    by (simp_all add: s0_def NewRateLimiter_def resetTimers_def historyOf_def kinds_defs)
  note r1 = RecordAction_configured [OF l0, of T0, folded s1_def]
  have l1: "limits s1 ActionConnectionReq = Some ?limit"
    and h1: "historyOf s1 ActionConnectionReq = [T0]"
    and c1: "consecutiveActions s1 = 1"
    using r1 l0 h0 c0 by (simp_all add: wrap_int64_def)
  note r2 = RecordAction_configured [OF l1, of "T0 + 90 * Second", folded s2_def]
  have l2: "limits s2 ActionConnectionReq = Some ?limit"
    and h2: "historyOf s2 ActionConnectionReq = [T0, T0 + 90 * Second]"
    and c2: "consecutiveActions s2 = 2"
    using r2 l1 h1 c1 by (simp_all add: wrap_int64_def)
  note r3 = RecordAction_configured [OF l2, of "T0 + 180 * Second", folded s3_def]
  have l3: "limits s3 ActionConnectionReq = Some ?limit"
    and h3: "historyOf s3 ActionConnectionReq = [T0, T0 + 90 * Second, T0 + 180 * Second]"
    and c3: "consecutiveActions s3 = 3"
    using r3 l2 h2 c2 by (simp_all add: wrap_int64_def)
  note r4 = RecordAction_configured [OF l3, of "T0 + 270 * Second", folded s4_def]
  have l4: "limits s4 ActionConnectionReq = Some ?limit"
    and h4: "historyOf s4 ActionConnectionReq
        = [T0, T0 + 90 * Second, T0 + 180 * Second, T0 + 270 * Second]"
    and c4: "consecutiveActions s4 = 4"
    using r4 l3 h3 c3 by (simp_all add: wrap_int64_def)
  note r5 = RecordAction_configured [OF l4, of "T0 + 360 * Second", folded s5_def]
  have l5: "limits s5 ActionConnectionReq = Some ?limit"
    and h5: "historyOf s5 ActionConnectionReq
        = [T0, T0 + 90 * Second, T0 + 180 * Second, T0 + 270 * Second, T0 + 360 * Second]"
    and c5: "consecutiveActions s5 = 0"
    and u5: "cooldownUntil s5 = T0 + 960 * Second"
    using r5 l4 h4 c4 by (simp_all add: wrap_int64_def units_defs)
  have run: "five_requests created T0 = ([None, None, None, None, None], s5)"
    using r1(1) r2(1) r3(1) r4(1) r5(1)
    by (simp add: five_requests_def s0_def s1_def s2_def s3_def s4_def s5_def split_beta)
  show "fst (five_requests created T0) = [None, None, None, None, None]"
    and "limits (snd (five_requests created T0)) ActionConnectionReq = Some ?limit"
    and "historyOf (snd (five_requests created T0)) ActionConnectionReq =
       [T0, T0 + 90 * Second, T0 + 180 * Second, T0 + 270 * Second, T0 + 360 * Second]"
    and "cooldownUntil (snd (five_requests created T0)) = T0 + 960 * Second"
    and "consecutiveActions (snd (five_requests created T0)) = 0"
    by (simp_all add: run l5 h5 c5 u5)
qed

text \<open>
  C1. In a limiter made by \<^verbatim>\<open>NewRateLimiter\<close>, whose limit for connection requests is
  10 per hour, 50 per day, 90 s apart, a cooldown of 10 minutes after 5 actions, five
  connection requests are recorded at \<open>T0\<close>, \<open>T0 + 90 s\<close>, ..., \<open>T0 + 360 s\<close>. All
  five calls succeed; afterwards the cooldown end is \<open>T0 + 960 s\<close> and the counter is
  zero. From then on, whatever checks were made in between, \<^verbatim>\<open>CanPerformAction\<close> for a
  connection request returns false with the cooldown reason at every instant from
  \<open>T0 + 360 s\<close> up to but not including \<open>T0 + 960 s\<close>, and \<open>(true, "")\<close> at every
  instant from \<open>T0 + 960 s\<close> on.
\<close>

theorem cooldown_scenario:
  "limits (NewRateLimiter created) ActionConnectionReq =
     Some \<lparr>HourlyMax = 10, DailyMax = 50, MinInterval = 90 * Second,
           CooldownAfter = 5, CooldownDuration = 10 * Minute\<rparr> \<and>
   fst (five_requests created T0) = [None, None, None, None, None] \<and>
   cooldownUntil (snd (five_requests created T0)) = T0 + 960 * Second \<and>
   consecutiveActions (snd (five_requests created T0)) = 0 \<and>
   (\<forall>earlier t. T0 + 360 * Second \<le> t \<and> t < T0 + 960 * Second \<longrightarrow>
      CanPerformAction t ActionConnectionReq (checks earlier (snd (five_requests created T0))) =
        ((False, ''In cooldown period. Wait ''
            @ Duration_String (Round (T0 + 960 * Second - t) Second)),
         checks earlier (snd (five_requests created T0)))) \<and>
   (\<forall>earlier t. T0 + 960 * Second \<le> t \<longrightarrow>
      fst (CanPerformAction t ActionConnectionReq (checks earlier (snd (five_requests created T0))))
        = (True, ''''))"
proof -
  let ?limit = "\<lparr>HourlyMax = 10, DailyMax = 50, MinInterval = 90 * Second,
           CooldownAfter = 5, CooldownDuration = 10 * Minute\<rparr>"
  let ?s5 = "snd (five_requests created T0)"
  have configured: "limits (NewRateLimiter created) ActionConnectionReq = Some ?limit"
    by (simp add: NewRateLimiter_def resetTimers_def kinds_defs)
  have cooling: "CanPerformAction t ActionConnectionReq (checks earlier ?s5) =
        ((False, ''In cooldown period. Wait ''
            @ Duration_String (Round (T0 + 960 * Second - t) Second)), checks earlier ?s5)"
    if "t < T0 + 960 * Second" for earlier t
    using that
    by (simp add: CanPerformAction_def checks_fields five_requests_state Let_def)
  have allowed: "fst (CanPerformAction t ActionConnectionReq (checks earlier ?s5)) = (True, '''')"
    if late: "T0 + 960 * Second \<le> t" for earlier t
  proof (rule CanPerformAction_allowed)
    show "\<not> t < cooldownUntil (checks earlier ?s5)"
      using late by (simp add: checks_fields five_requests_state)
    show "limits (checks earlier ?s5) ActionConnectionReq = Some ?limit"
      by (simp add: checks_fields five_requests_state)
    have len: "length (historyOf (checks earlier ?s5) ActionConnectionReq) \<le> 5"
      using checks_history [of earlier ?s5 ActionConnectionReq]
      by (simp add: five_requests_state)
    then show "int (length (historyOf (checks earlier ?s5) ActionConnectionReq)) < HourlyMax ?limit"
      by simp
    from len show "int (length (historyOf (checks earlier ?s5) ActionConnectionReq)) < DailyMax ?limit"
      by simp
    have "set (historyOf (checks earlier ?s5) ActionConnectionReq)
        \<subseteq> {T0, T0 + 90 * Second, T0 + 180 * Second, T0 + 270 * Second, T0 + 360 * Second}"
      using checks_history [of earlier ?s5 ActionConnectionReq]
      by (simp add: five_requests_state)
    then have "\<forall>u \<in> set (historyOf (checks earlier ?s5) ActionConnectionReq). u \<le> T0 + 360 * Second"
      by (auto simp: Second_def)
    with late show "\<forall>u \<in> set (historyOf (checks earlier ?s5) ActionConnectionReq).
        MinInterval ?limit \<le> t - u"
      by (auto simp: Second_def)
  qed
  show ?thesis
    using configured cooling allowed
    by (simp add: five_requests_state)
qed

theorem cooldown_scenario_witness:
  "CanPerformAction (1400 * Second) ActionConnectionReq (snd (five_requests 0 (1000 * Second)))
     = ((False, ''In cooldown period. Wait 9m20s''), snd (five_requests 0 (1000 * Second))) \<and>
   fst (CanPerformAction (1960 * Second) ActionConnectionReq
     (checks [(1400 * Second, ActionConnectionReq)] (snd (five_requests 0 (1000 * Second)))))
     = (True, '''')"
proof -
  note scenario = cooldown_scenario [of 0 "1000 * Second"]
  have rendered: "Duration_String (Round (1000 * Second + 960 * Second - 1400 * Second) Second) = ''9m20s''"
    by (simp add: render_defs units_defs)
  have window: "1000 * Second + 360 * Second \<le> 1400 * Second \<and>
      1400 * Second < 1000 * Second + 960 * Second"
    by (simp add: Second_def)
  have "CanPerformAction (1400 * Second) ActionConnectionReq
      (checks [] (snd (five_requests 0 (1000 * Second)))) =
        ((False, ''In cooldown period. Wait ''
            @ Duration_String (Round (1000 * Second + 960 * Second - 1400 * Second) Second)),
         checks [] (snd (five_requests 0 (1000 * Second))))"
    using scenario window by blast
  then have refused: "CanPerformAction (1400 * Second) ActionConnectionReq
      (snd (five_requests 0 (1000 * Second)))
     = ((False, ''In cooldown period. Wait 9m20s''), snd (five_requests 0 (1000 * Second)))"
    unfolding rendered by simp
  have over: "1000 * Second + 960 * Second \<le> 1960 * Second"
    by (simp add: Second_def)
  have allowed: "fst (CanPerformAction (1960 * Second) ActionConnectionReq
     (checks [(1400 * Second, ActionConnectionReq)] (snd (five_requests 0 (1000 * Second)))))
     = (True, '''')"
    using scenario over by blast
  from refused allowed show ?thesis
    by blast
qed

end
